theory Spec2Isabelle
  imports Complex_Main "HOL-Library.Char_ord" "HOL-Library.List_Lexorder"
begin

section \<open>Python and SQLite primitives used by the invoice engine\<close>

text \<open>
  The application is a single Flask module over an SQLite database. A string is the list
  of the bytes of its UTF-8 encoding, the form in which SQLite stores and compares text;
  the lexicographic order by byte is SQLite's default \<open>BINARY\<close> collation.
  Every exception the modelled code can raise is a value of \<open>error\<close>.
\<close>

datatype error = AttributeError | ValueError | OverflowError | IntegrityError | NotFound

subsection \<open>The interpreter\<close>

text \<open>
  \<open>str.upper\<close>, \<open>str.strip\<close> and \<open>int(str)\<close> are functions of the Python
  interpreter: the Unicode tables of its version define them, on every script. The number
  of digits beyond which the conversions between \<open>int\<close> and \<open>str\<close> raise
  \<open>ValueError\<close> is a setting of the interpreter, \<open>sys.get_int_max_str_digits()\<close>:
  4300 unless configured, 0 for no limit. These four are parameters of the model.
  \<open>py_int\<close> is \<open>int\<close> on a string, \<open>None\<close> where \<open>int\<close> raises
  \<open>ValueError\<close>.
\<close>

record python =
  str_upper :: "string \<Rightarrow> string"
  str_strip :: "string \<Rightarrow> string"
  py_int :: "string \<Rightarrow> int option"
  int_max_str_digits :: nat

subsection \<open>\<open>str.split\<close> and the format specification \<open>04d\<close>\<close>

text \<open>\<open>s.split(sep)\<close> for a one-character separator: never the empty list.\<close>

fun py_split :: "char \<Rightarrow> string \<Rightarrow> string list" where
  "py_split sep [] = [[]]"
| "py_split sep (c # cs) =
     (if c = sep then [] # py_split sep cs
      else (case py_split sep cs of
              [] \<Rightarrow> [[c]]
            | w # ws \<Rightarrow> (c # w) # ws))"

fun dec_digits :: "nat \<Rightarrow> string" where
  "dec_digits n =
     (if n < 10 then [''0123456789'' ! n]
      else dec_digits (n div 10) @ [''0123456789'' ! (n mod 10)])"

declare dec_digits.simps [simp del]

definition zfill :: "nat \<Rightarrow> string \<Rightarrow> string" where
  "zfill w s = replicate (w - length s) (CHR ''0'') @ s"

text \<open>
  \<open>f'{n:04d}'\<close>: minimum width 4, zero filled; the sign counts for the width. The
  conversion raises \<open>ValueError\<close> when the interpreter has a digit limit and the
  number has more digits.
\<close>

definition format_04d :: "python \<Rightarrow> int \<Rightarrow> error + string" where
  "format_04d py n =
     (if 0 < int_max_str_digits py \<and> int_max_str_digits py < length (dec_digits (nat \<bar>n\<bar>))
      then Inl ValueError
      else Inr (if n < 0 then CHR ''-'' # zfill 3 (dec_digits (nat (- n)))
                else zfill 4 (dec_digits (nat n))))"

subsection \<open>The interpreter on ASCII text\<close>

text \<open>
  On a string of ASCII characters the three functions are the following, in CPython with
  its default digit limit. \<open>str.strip\<close> removes the characters for which
  \<open>str.isspace\<close> holds; \<open>int\<close> skips the six characters of C's \<open>isspace\<close>,
  reads an optional sign and decimal digits, single underscores allowed between digits,
  and refuses more than 4300 digits. \<open>ascii_python\<close> is the interpreter the examples
  run on; all their strings are ASCII.
\<close>

definition upper_char :: "char \<Rightarrow> char" where
  "upper_char c =
     (if CHR ''a'' \<le> c \<and> c \<le> CHR ''z'' then
        (case map_of (zip ''abcdefghijklmnopqrstuvwxyz'' ''ABCDEFGHIJKLMNOPQRSTUVWXYZ'') c of
           Some u \<Rightarrow> u
         | None \<Rightarrow> c)
      else c)"

definition ascii_upper :: "string \<Rightarrow> string" where
  "ascii_upper s = map upper_char s"

definition lower_char :: "char \<Rightarrow> char" where
  "lower_char c =
     (if CHR ''A'' \<le> c \<and> c \<le> CHR ''Z'' then
        (case map_of (zip ''ABCDEFGHIJKLMNOPQRSTUVWXYZ'' ''abcdefghijklmnopqrstuvwxyz'') c of
           Some l \<Rightarrow> l
         | None \<Rightarrow> c)
      else c)"

definition is_space :: "char \<Rightarrow> bool" where
  "is_space c = (c \<in> set [CHR 0x09, CHR 0x0A, CHR 0x0B, CHR 0x0C, CHR 0x0D,
                           CHR 0x1C, CHR 0x1D, CHR 0x1E, CHR 0x1F, CHR 0x20])"

definition ascii_strip :: "string \<Rightarrow> string" where
  "ascii_strip s = rev (dropWhile is_space (rev (dropWhile is_space s)))"

definition is_c_space :: "char \<Rightarrow> bool" where
  "is_c_space c = (c \<in> set [CHR 0x09, CHR 0x0A, CHR 0x0B, CHR 0x0C, CHR 0x0D, CHR 0x20])"

definition is_digit :: "char \<Rightarrow> bool" where
  "is_digit c = (c \<in> set ''0123456789'')"

definition digit_val :: "char \<Rightarrow> nat" where
  "digit_val c =
     (case map_of (zip ''0123456789'' [0, 1, 2, 3, 4, 5, 6, 7, 8, 9]) c of
        Some d \<Rightarrow> d
      | None \<Rightarrow> 0)"

text \<open>
  The digits of a decimal literal after its first digit: digits, each optionally preceded
  by one underscore.
\<close>

fun digits_value :: "nat \<Rightarrow> string \<Rightarrow> nat option" where
  "digits_value acc [] = Some acc"
| "digits_value acc [c] = (if is_digit c then Some (10 * acc + digit_val c) else None)"
| "digits_value acc (c # d # cs) =
     (if is_digit c then digits_value (10 * acc + digit_val c) (d # cs)
      else if c = CHR ''_'' \<and> is_digit d then digits_value (10 * acc + digit_val d) cs
      else None)"

definition parse_decimal :: "string \<Rightarrow> nat option" where
  "parse_decimal s =
     (case s of
        [] \<Rightarrow> None
      | c # cs \<Rightarrow> if is_digit c then digits_value (digit_val c) cs else None)"

definition ascii_int :: "string \<Rightarrow> int option" where
  "ascii_int s =
     (let body = rev (dropWhile is_c_space (rev (dropWhile is_c_space s)))
      in if 4300 < length (filter is_digit body) then None
         else
           (case body of
              [] \<Rightarrow> None
            | c # cs \<Rightarrow>
                if c = CHR ''-'' then map_option (\<lambda>n. - int n) (parse_decimal cs)
                else if c = CHR ''+'' then map_option int (parse_decimal cs)
                else map_option int (parse_decimal (c # cs))))"

definition ascii_python :: python where
  "ascii_python =
     \<lparr>str_upper = ascii_upper, str_strip = ascii_strip, py_int = ascii_int,
      int_max_str_digits = 4300\<rparr>"

text \<open>
  \<open>str.capitalize\<close>; the engine applies it to the five status names only.
\<close>

definition str_capitalize :: "string \<Rightarrow> string" where
  "str_capitalize s = (case s of [] \<Rightarrow> [] | c # cs \<Rightarrow> upper_char c # map lower_char cs)"

subsection \<open>SQL \<open>LIKE\<close>\<close>

text \<open>
  \<open>like pattern s\<close> is SQLite's \<open>s LIKE pattern\<close>, without an escape character:
  \<open>%\<close> matches any run of characters, \<open>_\<close> matches one character, every other
  character matches itself, an ASCII letter without regard to case. A character is one
  UTF-8 sequence: \<open>utf8_rest c cs\<close> is what follows the character that starts with
  the byte \<open>c\<close>.
\<close>

definition utf8_rest :: "char \<Rightarrow> string \<Rightarrow> string" where
  "utf8_rest c cs =
     (if CHR 0xC0 \<le> c then dropWhile (\<lambda>d. CHR 0x80 \<le> d \<and> d < CHR 0xC0) cs else cs)"

function like :: "string \<Rightarrow> string \<Rightarrow> bool" where
  "like [] [] = True"
| "like [] (c # cs) = False"
| "like (p # ps) [] = (p = CHR ''%'' \<and> like ps [])"
| "like (p # ps) (c # cs) =
     (if p = CHR ''%'' then like ps (c # cs) \<or> like (p # ps) (utf8_rest c cs)
      else if p = CHR ''_'' then like ps (utf8_rest c cs)
      else upper_char p = upper_char c \<and> like ps cs)"
  by pat_completeness auto

termination
  by (relation "measure (\<lambda>(p, s). length p + length s)")
     (auto simp: utf8_rest_def intro!: le_imp_less_Suc le_SucI length_dropWhile_le)

section \<open>Data model\<close>

record user =
  id :: nat
  email :: string
  invoice_prefix :: "string option"
  role :: string

record client =
  id :: nat
  name :: string
  email :: "string option"
  invoice_prefix :: "string option"
  user_id :: nat

section \<open>Invoice number allocator\<close>

text \<open>Python truthiness of a nullable string column: \<open>None\<close> and \<open>''\<close> are false.\<close>

fun configured :: "string option \<Rightarrow> string option" where
  "configured None = None"
| "configured (Some p) = (if p = [] then None else Some p)"

text \<open>The \<open>if\<close>/\<open>elif\<close>/\<open>else\<close> chain that opens \<open>generate_invoice_number\<close>.\<close>

definition resolved_prefix :: "python \<Rightarrow> user option \<Rightarrow> client option \<Rightarrow> string \<Rightarrow> string" where
  "resolved_prefix py usr cl prefix =
     (case Option.bind cl (\<lambda>c. configured (client.invoice_prefix c)) of
        Some p \<Rightarrow> str_upper py p
      | None \<Rightarrow>
          (case Option.bind usr (\<lambda>u. configured (user.invoice_prefix u)) of
             Some p \<Rightarrow> str_upper py p
           | None \<Rightarrow> str_upper py prefix))"

text \<open>
  \<open>Invoice.query.filter(invoice_number.like(pattern)).order_by(invoice_number.desc()).first()\<close>
  over the \<open>invoice_number\<close> column: the greatest matching number, if any.
\<close>

definition last_invoice :: "string \<Rightarrow> string list \<Rightarrow> string option" where
  "last_invoice pattern numbers =
     (case filter (like pattern) numbers of
        [] \<Rightarrow> None
      | n # ns \<Rightarrow> Some (fold max ns n))"

text \<open>
  \<open>generate_invoice_number(user, client, prefix)\<close>. The interpreter, the
  \<open>invoice_number\<close> column the function queries and the \<open>%Y%m\<close> rendering
  of \<open>datetime.now()\<close> are the first three arguments; \<open>user\<close>,
  \<open>client\<close> and \<open>prefix\<close> follow. \<open>new_num\<close> is 1 or one more
  than what \<open>int\<close> reads after the last hyphen of the last invoice.
\<close>

definition generate_invoice_number ::
  "python \<Rightarrow> string list \<Rightarrow> string \<Rightarrow> user option \<Rightarrow> client option \<Rightarrow> string \<Rightarrow>
   error + string" where
  "generate_invoice_number py numbers year_month usr cl prefix =
     (let p = resolved_prefix py usr cl prefix;
          pattern = p @ ''-'' @ year_month @ ''-%''
      in case (case last_invoice pattern numbers of
                 None \<Rightarrow> Inr 1
               | Some l \<Rightarrow>
                   (case py_int py (last (py_split (CHR ''-'') l)) of
                      None \<Rightarrow> Inl ValueError
                    | Some last_num \<Rightarrow> Inr (last_num + 1))) of
           Inl e \<Rightarrow> Inl e
         | Inr new_num \<Rightarrow>
             (case format_04d py new_num of
                Inl e \<Rightarrow> Inl e
              | Inr s \<Rightarrow> Inr (p @ ''-'' @ year_month @ ''-'' @ s)))"

section \<open>Dates, floats and the remaining tables\<close>

text \<open>
  A \<open>datetime\<close> is the number of microseconds since 0001-01-01T00:00:00, a
  \<open>timedelta\<close> a number of microseconds. Python's \<open>datetime\<close> ends with year 9999:
  an addition that leaves the range raises \<open>OverflowError\<close>.
\<close>

type_synonym datetime = int
type_synonym timedelta = int

definition datetime_max :: datetime where
  "datetime_max = 3652059 * 86400000000 - 1"

definition days :: "int \<Rightarrow> timedelta" where
  "days n = n * 86400000000"

definition dt_add :: "datetime \<Rightarrow> timedelta \<Rightarrow> error + datetime" where
  "dt_add d delta =
     (if 0 \<le> d + delta \<and> d + delta \<le> datetime_max then Inr (d + delta)
      else Inl OverflowError)"

text \<open>
  The \<open>Float\<close> columns hold Python floats. Their arithmetic is a parameter of the model:
  \<open>ffloat\<close> converts an integer literal, \<open>fsum\<close> is the builtin \<open>sum\<close>,
  \<open>fadd\<close>, \<open>fmul\<close>, \<open>fdiv\<close> are \<open>+\<close>, \<open>*\<close>, \<open>/\<close>, and
  \<open>fformat2\<close> is the format specification \<open>.2f\<close>.
\<close>

record 'f float_ops =
  ffloat :: "int \<Rightarrow> 'f"
  fsum :: "'f list \<Rightarrow> 'f"
  fadd :: "'f \<Rightarrow> 'f \<Rightarrow> 'f"
  fmul :: "'f \<Rightarrow> 'f \<Rightarrow> 'f"
  fdiv :: "'f \<Rightarrow> 'f \<Rightarrow> 'f"
  fformat2 :: "'f \<Rightarrow> string"

record 'f invoice_item =
  description :: string
  quantity :: 'f
  unit_price :: 'f
  amount :: 'f

record 'f invoice =
  id :: nat
  invoice_number :: string
  date :: datetime
  due_date :: datetime
  status :: string
  total_amount :: 'f
  tax_rate :: 'f
  tax_amount :: 'f
  subtotal :: 'f
  "notes" :: "string option"
  terms :: "string option"
  title :: "string option"
  is_recurring :: bool
  frequency :: "string option"
  initial_send_date :: "datetime option"
  next_send_date :: "datetime option"
  user_id :: nat
  client_id :: nat
  items :: "'f invoice_item list"

record notification =
  user_id :: nat
  title :: string
  message :: string

record audit_log =
  user_id :: nat
  action :: string
  entity_type :: string
  entity_id :: nat
  details :: string

record 'f db =
  users :: "user list"
  clients :: "client list"
  invoices :: "'f invoice list"
  notifications :: "notification list"
  audit_logs :: "audit_log list"

type_synonym flash = "string \<times> string"

section \<open>Totals calculator and recurrence clock\<close>

definition calculate_totals :: "'f float_ops \<Rightarrow> 'f invoice \<Rightarrow> 'f invoice" where
  "calculate_totals ops self =
     (let self1 = self\<lparr>subtotal := fsum ops (map amount (items self))\<rparr>;
          self2 = self1\<lparr>tax_amount :=
                    fmul ops (subtotal self1) (fdiv ops (tax_rate self1) (ffloat ops 100))\<rparr>
      in self2\<lparr>total_amount := fadd ops (subtotal self2) (tax_amount self2)\<rparr>)"

definition is_completed :: "'f invoice \<Rightarrow> bool" where
  "is_completed self = (status self \<in> set [''paid'', ''cancelled''])"

definition calculate_next_send_date :: "'f invoice \<Rightarrow> error + datetime option" where
  "calculate_next_send_date self =
     (if \<not> is_recurring self then Inr None
      else if configured (frequency self) = None then Inr None
      else
        let base_date =
              (case invoice.next_send_date self of
                 Some d \<Rightarrow> d
               | None \<Rightarrow>
                   (case initial_send_date self of
                      Some d \<Rightarrow> d
                    | None \<Rightarrow> date self))
        in if frequency self = Some ''daily'' then map_sum (\<lambda>e. e) Some (dt_add base_date (days 1))
           else if frequency self = Some ''weekly'' then map_sum (\<lambda>e. e) Some (dt_add base_date (days 7))
           else if frequency self = Some ''monthly'' then map_sum (\<lambda>e. e) Some (dt_add base_date (days 30))
           else Inr None)"

section \<open>Persistence helpers\<close>

text \<open>The primary key SQLite gives the next row of a table: one more than the greatest.\<close>

definition next_id :: "'f invoice list \<Rightarrow> nat" where
  "next_id invs = Suc (fold max (map invoice.id invs) 0)"

definition update_invoice :: "nat \<Rightarrow> ('f invoice \<Rightarrow> 'f invoice) \<Rightarrow> 'f db \<Rightarrow> 'f db" where
  "update_invoice k f db =
     db\<lparr>invoices := map (\<lambda>i. if invoice.id i = k then f i else i) (invoices db)\<rparr>"

text \<open>
  \<open>create_notification(user_id, title, message, send_email)\<close> stores one row; the
  optional e-mail copy leaves the database as it is. \<open>log_audit\<close> stores one row for
  the logged-in user.
\<close>

definition create_notification :: "nat \<Rightarrow> string \<Rightarrow> string \<Rightarrow> 'f db \<Rightarrow> 'f db" where
  "create_notification uid ttl msg db =
     db\<lparr>notifications := notifications db @
          [\<lparr>notification.user_id = uid, title = ttl, message = msg\<rparr>]\<rparr>"

definition log_audit :: "user \<Rightarrow> string \<Rightarrow> string \<Rightarrow> nat \<Rightarrow> string \<Rightarrow> 'f db \<Rightarrow> 'f db" where
  "log_audit current_user act etype eid dtl db =
     db\<lparr>audit_logs := audit_logs db @
          [\<lparr>audit_log.user_id = user.id current_user, action = act, entity_type = etype,
            entity_id = eid, details = dtl\<rparr>]\<rparr>"

section \<open>Recurring invoice generator\<close>

text \<open>The filter of the query that opens \<open>process_recurring_invoices\<close>.\<close>

definition is_due :: "datetime \<Rightarrow> 'f invoice \<Rightarrow> bool" where
  "is_due now i =
     (is_recurring i
      \<and> (case invoice.next_send_date i of None \<Rightarrow> False | Some d \<Rightarrow> d \<le> now)
      \<and> status i \<noteq> ''cancelled'')"

definition recurring_templates :: "datetime \<Rightarrow> 'f db \<Rightarrow> 'f invoice list" where
  "recurring_templates now db = filter (is_due now) (invoices db)"

text \<open>
  \<open>template.user\<close>: class \<open>Invoice\<close> declares the columns \<open>user_id\<close> and
  \<open>client_id\<close> and the relationship \<open>items\<close>, and receives the attribute
  \<open>client\<close> from the back reference of \<open>Client.invoices\<close>. No class declares a
  relationship or back reference named \<open>user\<close>, so reading the attribute raises.
  \<open>template.client\<close> follows the foreign key.
\<close>

definition template_user :: "'f invoice \<Rightarrow> error + user option" where
  "template_user template = Inl AttributeError"

definition template_client :: "'f db \<Rightarrow> 'f invoice \<Rightarrow> client option" where
  "template_client db template = find (\<lambda>c. client.id c = client_id template) (clients db)"

text \<open>The constructor call \<open>Invoice(...)\<close> of the loop body; the totals take their column default.\<close>

definition new_invoice ::
  "'f float_ops \<Rightarrow> nat \<Rightarrow> string \<Rightarrow> datetime \<Rightarrow> datetime \<Rightarrow> 'f invoice \<Rightarrow> 'f invoice" where
  "new_invoice ops k new_number now due template =
     \<lparr>invoice.id = k,
      invoice_number = new_number,
      date = now,
      due_date = due,
      status = ''draft'',
      total_amount = ffloat ops 0,
      tax_rate = tax_rate template,
      tax_amount = ffloat ops 0,
      subtotal = ffloat ops 0,
      notes = notes template,
      terms = terms template,
      title = invoice.title template,
      is_recurring = False,
      frequency = None,
      initial_send_date = None,
      next_send_date = None,
      user_id = invoice.user_id template,
      client_id = client_id template,
      items = []\<rparr>"

definition copy_items :: "'f invoice_item list \<Rightarrow> 'f invoice_item list" where
  "copy_items its =
     map (\<lambda>item. \<lparr>description = description item, quantity = quantity item,
                   unit_price = unit_price item, amount = amount item\<rparr>) its"

text \<open>
  Step 5 of the loop body, after the commit: the delivery attempt
  \<open>send_invoice_email(new_invoice)\<close> (the collaborator, a parameter) and what follows it.
\<close>

definition deliver_child ::
  "('f invoice \<Rightarrow> bool) \<Rightarrow> 'f invoice \<Rightarrow> 'f invoice \<Rightarrow> 'f db \<Rightarrow> (error \<times> 'f db) + 'f db" where
  "deliver_child send_invoice_email template child db =
     (if send_invoice_email child then
        let db1 = update_invoice (invoice.id child) (\<lambda>i. i\<lparr>status := ''sent''\<rparr>) db
        in case template_client db1 template of
             None \<Rightarrow> Inl (AttributeError, db1)
           | Some c \<Rightarrow>
               Inr (create_notification (invoice.user_id template) ''Recurring Invoice Sent''
                      (''Automated invoice '' @ invoice_number child @
                       '' successfully sent to '' @ client.name c) db1)
      else
        Inr (create_notification (invoice.user_id template) ''Recurring Email Failed''
               (''Generated invoice '' @ invoice_number child @
                '' but email failed. Status is Draft.'') db))"

text \<open>
  The loop body from its second expression on, for a value \<open>usr\<close> of \<open>template.user\<close>:
  allocate the number, build and flush the child (the column \<open>invoice_number\<close> is
  unique), copy the items, compute the totals, advance the template, commit, deliver.
  An exception leaves the database as of the last commit.
\<close>

definition generate_child ::
  "python \<Rightarrow> 'f float_ops \<Rightarrow> ('f invoice \<Rightarrow> bool) \<Rightarrow> string \<Rightarrow> datetime \<Rightarrow> user option \<Rightarrow>
   'f invoice \<Rightarrow> 'f db \<Rightarrow> (error \<times> 'f db) + 'f db" where
  "generate_child py ops send_invoice_email year_month now usr template db =
     (case generate_invoice_number py (map invoice_number (invoices db)) year_month usr
             (template_client db template) ''INV'' of
        Inl e \<Rightarrow> Inl (e, db)
      | Inr new_number \<Rightarrow>
     (case dt_add now (due_date template - date template) of
        Inl e \<Rightarrow> Inl (e, db)
      | Inr due \<Rightarrow>
     if new_number \<in> set (map invoice_number (invoices db)) then Inl (IntegrityError, db)
     else
       let child = calculate_totals ops
                     ((new_invoice ops (next_id (invoices db)) new_number now due template)
                        \<lparr>items := copy_items (items template)\<rparr>)
       in case calculate_next_send_date template of
            Inl e \<Rightarrow> Inl (e, db)
          | Inr next_date \<Rightarrow>
              deliver_child send_invoice_email template child
                ((update_invoice (invoice.id template) (\<lambda>i. i\<lparr>next_send_date := next_date\<rparr>) db)
                   \<lparr>invoices :=
                      invoices (update_invoice (invoice.id template)
                                  (\<lambda>i. i\<lparr>next_send_date := next_date\<rparr>) db) @ [child]\<rparr>)))"

definition process_template ::
  "python \<Rightarrow> 'f float_ops \<Rightarrow> ('f invoice \<Rightarrow> bool) \<Rightarrow> string \<Rightarrow> datetime \<Rightarrow>
   'f invoice \<Rightarrow> 'f db \<Rightarrow> (error \<times> 'f db) + 'f db" where
  "process_template py ops send_invoice_email year_month now template db =
     (case template_user template of
        Inl e \<Rightarrow> Inl (e, db)
      | Inr usr \<Rightarrow> generate_child py ops send_invoice_email year_month now usr template db)"

text \<open>The \<open>for\<close> loop: nothing catches an exception of the body.\<close>

fun process_templates ::
  "python \<Rightarrow> 'f float_ops \<Rightarrow> ('f invoice \<Rightarrow> bool) \<Rightarrow> string \<Rightarrow> datetime \<Rightarrow>
   'f invoice list \<Rightarrow> 'f db \<Rightarrow> (error \<times> 'f db) + 'f db" where
  "process_templates py ops send_invoice_email year_month now [] db = Inr db"
| "process_templates py ops send_invoice_email year_month now (template # rest) db =
     (case process_template py ops send_invoice_email year_month now template db of
        Inl failure \<Rightarrow> Inl failure
      | Inr db1 \<Rightarrow> process_templates py ops send_invoice_email year_month now rest db1)"

definition process_recurring_invoices ::
  "python \<Rightarrow> 'f float_ops \<Rightarrow> ('f invoice \<Rightarrow> bool) \<Rightarrow> string \<Rightarrow> datetime \<Rightarrow> 'f db \<Rightarrow>
   (error \<times> 'f db) + 'f db" where
  "process_recurring_invoices py ops send_invoice_email year_month now db =
     process_templates py ops send_invoice_email year_month now (recurring_templates now db) db"

section \<open>Status operations\<close>

text \<open>
  The route \<open>update_invoice_status\<close> behind its decorator \<open>admin_required\<close>. The
  result is the flashed messages and the database; \<open>first_or_404\<close> raises
  \<open>NotFound\<close>.
\<close>

definition status_messages :: "(string \<times> string) list" where
  "status_messages =
     [(''draft'', ''moved to Draft''),
      (''paid'', ''has been Paid '' @ [CHR 0xE2, CHR 0x9C, CHR 0x93]),
      (''overdue'', ''is now Overdue '' @ [CHR 0xE2, CHR 0x9A, CHR 0xA0, CHR 0xEF, CHR 0xB8, CHR 0x8F]),
      (''cancelled'', ''has been Cancelled'')]"

definition update_invoice_status ::
  "('f invoice \<Rightarrow> bool) \<Rightarrow> user \<Rightarrow> nat \<Rightarrow> string option \<Rightarrow> 'f db \<Rightarrow>
   error + (flash list \<times> 'f db)" where
  "update_invoice_status send_invoice_email current_user invoice_id form_status db =
     (if user.role current_user \<noteq> ''admin'' then
        Inr ([(''Admin access required. You have been redirected to your invoices.'', ''error'')], db)
      else
        case find (\<lambda>i. invoice.id i = invoice_id \<and> invoice.user_id i = user.id current_user)
               (invoices db) of
          None \<Rightarrow> Inl NotFound
        | Some invoice \<Rightarrow>
            (case form_status of
               None \<Rightarrow> Inr ([], db)
             | Some new_status \<Rightarrow>
                 if new_status \<in> set [''draft'', ''sent'', ''paid'', ''overdue'', ''cancelled''] then
                   if new_status = ''sent'' then
                     if send_invoice_email invoice then
                       Inr ([(''Status updated to Sent and email delivered.'', ''success'')],
                            update_invoice invoice_id (\<lambda>i. i\<lparr>status := ''sent''\<rparr>) db)
                     else
                       Inr ([(''Failed to send email. Invoice status NOT changed to Sent.'', ''error'')],
                            db)
                   else
                     Inr ([(''Invoice status updated to '' @ new_status, ''success'')],
                          log_audit current_user ''update'' ''invoice'' invoice_id
                            (''Status changed from '' @ status invoice @ '' to '' @ new_status)
                            (create_notification (user.id current_user)
                               (''Invoice Status Changed: '' @ str_capitalize new_status)
                               (''Invoice '' @ invoice_number invoice @ '' '' @
                                  (case map_of status_messages new_status of
                                     Some m \<Rightarrow> m
                                   | None \<Rightarrow> new_status))
                               (update_invoice invoice_id (\<lambda>i. i\<lparr>status := new_status\<rparr>) db)))
                 else Inr ([], db)))"

text \<open>
  The route \<open>customer_pay_invoice\<close>: the invoice is looked up through the join with the
  client whose e-mail address is the customer's.
\<close>

definition customer_pay_invoice ::
  "'f float_ops \<Rightarrow> user \<Rightarrow> nat \<Rightarrow> 'f db \<Rightarrow> error + (flash list \<times> 'f db)" where
  "customer_pay_invoice ops current_user invoice_id db =
     (if user.role current_user = ''admin'' then
        Inr ([(''Please use the admin panel to update invoice status.'', ''info'')], db)
      else
        case find (\<lambda>i. invoice.id i = invoice_id \<and>
                       (case template_client db i of
                          None \<Rightarrow> False
                        | Some c \<Rightarrow> client.email c = Some (user.email current_user)))
               (invoices db) of
          None \<Rightarrow> Inl NotFound
        | Some invoice \<Rightarrow>
            if status invoice \<in> set [''paid'', ''cancelled''] then
              Inr ([(''Invoice '' @ invoice_number invoice @ '' is already '' @ status invoice @ ''.'',
                     ''info'')], db)
            else
              (case template_client db invoice of
                 None \<Rightarrow> Inl AttributeError
               | Some c \<Rightarrow>
                   Inr ([(''Invoice '' @ invoice_number invoice @ '' marked as paid. Thank you!'',
                          ''success'')],
                        create_notification (user.id current_user)
                          ([CHR 0xE2, CHR 0x9C, CHR 0x85] @ '' Payment Confirmation'')
                          (''Thank you, '' @ client.name c @ ''! Your payment for invoice '' @
                             invoice_number invoice @ '' in the amount of $'' @
                             fformat2 ops (total_amount invoice) @ '' has been confirmed.'')
                          (create_notification (invoice.user_id invoice)
                             ([CHR 0xF0, CHR 0x9F, CHR 0x92, CHR 0xB0] @ '' Invoice Paid by Customer'')
                             (client.name c @ '' has marked invoice '' @ invoice_number invoice @
                                '' as paid. Amount: $'' @ fformat2 ops (total_amount invoice))
                             (log_audit current_user ''update'' ''invoice'' invoice_id
                                (''Customer marked invoice '' @ invoice_number invoice @ '' as paid'')
                                (update_invoice invoice_id (\<lambda>i. i\<lparr>status := ''paid''\<rparr>) db))))))"

text \<open>
  The invoice number of \<open>create_invoice_page\<close>: the form field \<open>invoice_prefix\<close>,
  stripped and upper-cased, is handed to the allocator as its third argument, \<open>'INV'\<close>
  when it is empty.
\<close>

definition create_invoice_page_number ::
  "python \<Rightarrow> string list \<Rightarrow> string \<Rightarrow> user \<Rightarrow> client \<Rightarrow> string option \<Rightarrow> error + string" where
  "create_invoice_page_number py numbers year_month current_user cl form_prefix =
     (let invoice_prefix =
            str_upper py (str_strip py (case configured form_prefix of Some p \<Rightarrow> p | None \<Rightarrow> []))
      in generate_invoice_number py numbers year_month (Some current_user) (Some cl)
           (if invoice_prefix = [] then ''INV'' else invoice_prefix))"

section \<open>The specification's wording\<close>


text \<open>
  The precedence as the specification words it, for comparison with \<open>resolved_prefix\<close>:
  the prefix of the request first, then the client's, then the user's, then \<open>'INV'\<close>.
\<close>

definition claimed_prefix :: "python \<Rightarrow> string option \<Rightarrow> client option \<Rightarrow> user option \<Rightarrow> string" where
  "claimed_prefix py request cl usr =
     str_upper py
       (case configured request of
          Some p \<Rightarrow> p
        | None \<Rightarrow>
            (case Option.bind cl (\<lambda>c. configured (client.invoice_prefix c)) of
               Some p \<Rightarrow> p
             | None \<Rightarrow>
                 (case Option.bind usr (\<lambda>u. configured (user.invoice_prefix u)) of
                    Some p \<Rightarrow> p
                  | None \<Rightarrow> ''INV'')))"

section \<open>IEEE 754 binary64 arithmetic\<close>

text \<open>
  The floats of CPython are IEEE 754 doubles: each operation returns the double nearest
  to the exact result, ties to the even significand. A finite double is modelled by the
  real number it denotes. \<open>binade fuel x 0\<close> is the exponent \<open>e\<close> with
  \<open>2 ^ e \<le> x < 2 ^ (e + 1)\<close>; 1100 steps cover every double. Infinities and NaN are
  not represented.
\<close>

definition round_half_even :: "real \<Rightarrow> int" where
  "round_half_even q =
     (let f = \<lfloor>q\<rfloor>; r = q - of_int f
      in if r < 1 / 2 then f else if 1 / 2 < r then f + 1 else if even f then f else f + 1)"

fun binade :: "nat \<Rightarrow> real \<Rightarrow> int \<Rightarrow> int" where
  "binade fuel x e =
     (if fuel = 0 then e
      else if 2 \<le> x then binade (fuel - 1) (x / 2) (e + 1)
      else if x < 1 then binade (fuel - 1) (x * 2) (e - 1)
      else e)"

declare binade.simps [simp del]

definition pow2 :: "int \<Rightarrow> real" where
  "pow2 e = (if 0 \<le> e then 2 ^ nat e else 1 / 2 ^ nat (- e))"

definition binary64 :: "real \<Rightarrow> real" where
  "binary64 x =
     (if x = 0 then 0
      else let q = pow2 (max (binade 1100 \<bar>x\<bar> 0) (- 1022) - 52)
           in sgn x * of_int (round_half_even (\<bar>x\<bar> / q)) * q)"

definition format_2f :: "real \<Rightarrow> string" where
  "format_2f x =
     (let n = nat (round_half_even (\<bar>x\<bar> * 100))
      in (if x < 0 then ''-'' else []) @ dec_digits (n div 100) @ ''.'' @
         zfill 2 (dec_digits (n mod 100)))"

definition binary64_ops :: "real float_ops" where
  "binary64_ops =
     \<lparr>ffloat = (\<lambda>n. binary64 (of_int n)),
      fsum = foldl (\<lambda>a b. binary64 (a + b)) 0,
      fadd = (\<lambda>a b. binary64 (a + b)),
      fmul = (\<lambda>a b. binary64 (a * b)),
      fdiv = (\<lambda>a b. binary64 (a / b)),
      fformat2 = format_2f\<rparr>"

section \<open>A sample database\<close>

text \<open>
  The administrator and the customer the application creates at start-up (the column
  \<open>invoice_prefix\<close> of a user defaults to \<open>'INV'\<close>), one client, and monthly
  templates created on 2023-12-02 and next due on 2024-01-01: tax rate 8, one item of
  2 units at 50.00. \<open>days n\<close> is midnight, \<open>n\<close> days after 0001-01-01.
\<close>

definition example_admin :: user where
  "example_admin =
     \<lparr>user.id = 1, email = ''admin@example.com'', invoice_prefix = Some ''INV'', role = ''admin''\<rparr>"

definition example_customer :: user where
  "example_customer =
     \<lparr>user.id = 2, email = ''customer@example.com'', invoice_prefix = Some ''INV'',
      role = ''customer''\<rparr>"

definition example_client :: client where
  "example_client =
     \<lparr>client.id = 1, name = ''Acme'', email = Some ''customer@example.com'',
      invoice_prefix = None, user_id = 1\<rparr>"

definition example_template :: "nat \<Rightarrow> string \<Rightarrow> real invoice" where
  "example_template k number =
     \<lparr>invoice.id = k,
      invoice_number = number,
      date = days 738855,
      due_date = days 738869,
      status = ''sent'',
      total_amount = 108,
      tax_rate = 8,
      tax_amount = 8,
      subtotal = 100,
      notes = None,
      terms = None,
      title = Some ''Hosting'',
      is_recurring = True,
      frequency = Some ''monthly'',
      initial_send_date = Some (days 738855),
      next_send_date = Some (days 738885),
      user_id = 1,
      client_id = 1,
      items = [\<lparr>description = ''Hosting'', quantity = 2, unit_price = 50, amount = 100\<rparr>]\<rparr>"

definition example_db :: "real db" where
  "example_db =
     \<lparr>users = [example_admin, example_customer],
      clients = [example_client],
      invoices = [example_template 1 ''INV-202312-0001'', example_template 2 ''INV-202312-0002''],
      notifications = [],
      audit_logs = []\<rparr>"

section \<open>Facts about the primitives\<close>

lemma replicate_numeral: "replicate (numeral k) x = x # replicate (pred_numeral k) x"
  by (simp add: numeral_eq_Suc)

lemma py_split_not_Nil: "py_split sep s \<noteq> []"
  by (induction s) (auto split: list.splits)

lemma last_py_split_no_sep: "sep \<notin> set (last (py_split sep s))"
proof (induction s)
  case Nil
  then show ?case by simp
next
  case (Cons c cs)
  obtain w ws where split: "py_split sep cs = w # ws"
    using py_split_not_Nil [of sep cs] by (cases "py_split sep cs") auto
  show ?case
  proof (cases "c = sep")
    case True
    with Cons split show ?thesis by simp
  next
    case False
    with Cons split show ?thesis by (cases ws) auto
  qed
qed














text \<open>Definitions unfolded when a concrete call is evaluated.\<close>

lemmas prim_ev = ascii_python_def ascii_upper_def upper_char_def ascii_strip_def is_space_def
  is_c_space_def is_digit_def digit_val_def parse_decimal_def ascii_int_def dec_digits.simps
  zfill_def format_04d_def utf8_rest_def replicate_numeral Let_def

lemmas alloc_ev = generate_invoice_number_def resolved_prefix_def last_invoice_def max_def

section \<open>Claims about the invoice number allocator\<close>




text \<open>
  Claim C1 (invoice-number uniqueness) fails on the code. The query orders the numbers
  as strings, and \<open>'INV-202401-9999'\<close> is greater than \<open>'INV-202401-10000'\<close>:
  once the scope holds both, the allocator reads 9999 again and returns the number
  \<open>INV-202401-10000\<close> that is already present. The first conjunct is the call that
  brings the table into that state.
\<close>

theorem generate_invoice_number_duplicate:
  "generate_invoice_number ascii_python [''INV-202401-9999''] ''202401'' None None ''INV'' =
     Inr ''INV-202401-10000''
   \<and> generate_invoice_number ascii_python [''INV-202401-9999'', ''INV-202401-10000''] ''202401'' None None ''INV'' =
     Inr ''INV-202401-10000''
   \<and> ''INV-202401-10000'' \<in> set [''INV-202401-9999'', ''INV-202401-10000'']"
  by (simp add: alloc_ev prim_ev)

lemmas ex_ev = example_admin_def example_customer_def example_client_def example_template_def
  example_db_def

lemmas float_ev = binary64_ops_def binary64_def binade.simps pow2_def round_half_even_def Let_def

text \<open>
  Claim C9 (prefix resolution) fails on the code as stated: the prefix of the request is
  the third argument of \<open>generate_invoice_number\<close> and is used last, not first. The
  administrator (user prefix \<open>INV\<close>) creates an invoice for a client without a prefix
  and enters the prefix \<open>xyz\<close> in the form: the number starts with \<open>INV\<close>, where
  the claimed precedence gives \<open>XYZ\<close>.
\<close>

theorem request_prefix_not_first:
  "create_invoice_page_number ascii_python [] ''202401'' example_admin example_client (Some ''xyz'') =
     Inr ''INV-202401-0001''
   \<and> claimed_prefix ascii_python (Some ''xyz'') (Some example_client) (Some example_admin) = ''XYZ''
   \<and> resolved_prefix ascii_python (Some example_admin) (Some example_client) ''XYZ'' \<noteq>
       claimed_prefix ascii_python (Some ''xyz'') (Some example_client) (Some example_admin)"
  by (simp add: create_invoice_page_number_def claimed_prefix_def alloc_ev prim_ev ex_ev)

text \<open>
  Claim C9 as amended. The prefix is the client's configured prefix when the client has a
  non-empty one; otherwise the issuing user's non-empty prefix; otherwise the prefix
  argument (the prefix of the request, \<open>'INV'\<close> when the caller gives none). Whatever
  its source, it is upper-cased, and every number the allocator returns starts with it.
\<close>

theorem resolved_prefix_precedence:
  "(\<forall>c p. cl = Some c \<and> client.invoice_prefix c = Some p \<and> p \<noteq> [] \<longrightarrow>
       resolved_prefix py usr cl prefix = str_upper py p)
   \<and> (\<forall>u p. Option.bind cl (\<lambda>c. configured (client.invoice_prefix c)) = None
            \<and> usr = Some u \<and> user.invoice_prefix u = Some p \<and> p \<noteq> [] \<longrightarrow>
       resolved_prefix py usr cl prefix = str_upper py p)
   \<and> (Option.bind cl (\<lambda>c. configured (client.invoice_prefix c)) = None
        \<and> Option.bind usr (\<lambda>u. configured (user.invoice_prefix u)) = None \<longrightarrow>
       resolved_prefix py usr cl prefix = str_upper py prefix)
   \<and> (\<forall>n. generate_invoice_number py numbers year_month usr cl prefix = Inr n \<longrightarrow>
         (\<exists>s. n = resolved_prefix py usr cl prefix @ ''-'' @ year_month @ ''-'' @ s))"
proof (intro conjI allI impI)
  fix c p
  assume "cl = Some c \<and> client.invoice_prefix c = Some p \<and> p \<noteq> []"
  then show "resolved_prefix py usr cl prefix = str_upper py p"
    by (simp add: resolved_prefix_def)
next
  fix u p
  assume "Option.bind cl (\<lambda>c. configured (client.invoice_prefix c)) = None
            \<and> usr = Some u \<and> user.invoice_prefix u = Some p \<and> p \<noteq> []"
  then show "resolved_prefix py usr cl prefix = str_upper py p"
    by (simp add: resolved_prefix_def)
next
  assume "Option.bind cl (\<lambda>c. configured (client.invoice_prefix c)) = None
        \<and> Option.bind usr (\<lambda>u. configured (user.invoice_prefix u)) = None"
  then show "resolved_prefix py usr cl prefix = str_upper py prefix"
    by (simp add: resolved_prefix_def)
next
  fix n
  assume "generate_invoice_number py numbers year_month usr cl prefix = Inr n"
  then show "\<exists>s. n = resolved_prefix py usr cl prefix @ ''-'' @ year_month @ ''-'' @ s"
    unfolding generate_invoice_number_def Let_def
    by (auto split: option.splits sum.splits)
qed

theorem resolved_prefix_precedence_witness:
  "resolved_prefix ascii_python (Some example_admin)
     (Some (example_client\<lparr>client.invoice_prefix := Some ''acme''\<rparr>)) ''XYZ'' = ''ACME''
   \<and> resolved_prefix ascii_python (Some example_admin) (Some example_client) ''XYZ'' = ''INV''
   \<and> resolved_prefix ascii_python (Some (example_admin\<lparr>user.invoice_prefix := Some ''''\<rparr>))
        (Some example_client) ''xyz'' = ''XYZ''
   \<and> (\<exists>s. ''INV-202401-0001'' = ''INV'' @ ''-'' @ ''202401'' @ ''-'' @ s)"
proof (intro conjI)
  show "resolved_prefix ascii_python (Some example_admin)
     (Some (example_client\<lparr>client.invoice_prefix := Some ''acme''\<rparr>)) ''XYZ'' = ''ACME''"
    using resolved_prefix_precedence
      [where py = ascii_python and cl = "Some (example_client\<lparr>client.invoice_prefix := Some ''acme''\<rparr>)"
         and usr = "Some example_admin" and prefix = "''XYZ''"]
    by (simp add: ascii_python_def ascii_upper_def upper_char_def)
  show "resolved_prefix ascii_python (Some example_admin) (Some example_client) ''XYZ'' = ''INV''"
    using resolved_prefix_precedence
      [where py = ascii_python and cl = "Some example_client" and usr = "Some example_admin" and prefix = "''XYZ''"]
    by (simp add: ascii_python_def ascii_upper_def upper_char_def ex_ev)
  show "resolved_prefix ascii_python (Some (example_admin\<lparr>user.invoice_prefix := Some ''''\<rparr>))
        (Some example_client) ''xyz'' = ''XYZ''"
    using resolved_prefix_precedence
      [where py = ascii_python and cl = "Some example_client"
         and usr = "Some (example_admin\<lparr>user.invoice_prefix := Some ''''\<rparr>)"
         and prefix = "''xyz''"]
    by (simp add: ascii_python_def ascii_upper_def upper_char_def ex_ev)
  have p: "resolved_prefix ascii_python (Some example_admin) (Some example_client) ''XYZ'' = ''INV''"
    by (simp add: resolved_prefix_def ascii_python_def ascii_upper_def upper_char_def ex_ev)
  have g: "generate_invoice_number ascii_python [] ''202401'' (Some example_admin) (Some example_client) ''XYZ''
             = Inr ''INV-202401-0001''"
    by (simp add: alloc_ev prim_ev ex_ev)
  show "\<exists>s. ''INV-202401-0001'' = ''INV'' @ ''-'' @ ''202401'' @ ''-'' @ s"
    using resolved_prefix_precedence
      [where py = ascii_python and cl = "Some example_client" and usr = "Some example_admin" and prefix = "''XYZ''"
         and numbers = "[]" and year_month = "''202401''"]
    unfolding p g by blast
qed

section \<open>Claims about the recurrence clock\<close>

text \<open>
  Claim C6 (recurrence clock). \<open>calculate_next_send_date\<close> returns \<open>None\<close> when
  \<open>is_recurring\<close> is false or \<open>frequency\<close> is null, and when \<open>frequency\<close> is
  none of \<open>daily\<close>, \<open>weekly\<close>, \<open>monthly\<close>. Otherwise, with \<open>base\<close> the
  first non-null of \<open>next_send_date\<close>, \<open>initial_send_date\<close>, \<open>date\<close>, it returns
  \<open>base\<close> plus 1, 7 or 30 days (a day is 86400000000 microseconds; 30 days whatever
  the month), provided that sum is a date Python can represent.
\<close>

theorem calculate_next_send_date_cases:
  fixes self :: "'f invoice"
  defines "base \<equiv>
    (case invoice.next_send_date self of
       Some d \<Rightarrow> d
     | None \<Rightarrow> (case initial_send_date self of Some d \<Rightarrow> d | None \<Rightarrow> date self))"
  shows
    "(\<not> is_recurring self \<or> frequency self = None \<longrightarrow> calculate_next_send_date self = Inr None)
     \<and> (frequency self \<notin> {Some ''daily'', Some ''weekly'', Some ''monthly''} \<longrightarrow>
          calculate_next_send_date self = Inr None)
     \<and> (is_recurring self \<and> frequency self = Some ''daily''
          \<and> 0 \<le> base + 86400000000 \<and> base + 86400000000 \<le> datetime_max \<longrightarrow>
          calculate_next_send_date self = Inr (Some (base + 86400000000)))
     \<and> (is_recurring self \<and> frequency self = Some ''weekly''
          \<and> 0 \<le> base + 7 * 86400000000 \<and> base + 7 * 86400000000 \<le> datetime_max \<longrightarrow>
          calculate_next_send_date self = Inr (Some (base + 7 * 86400000000)))
     \<and> (is_recurring self \<and> frequency self = Some ''monthly''
          \<and> 0 \<le> base + 30 * 86400000000 \<and> base + 30 * 86400000000 \<le> datetime_max \<longrightarrow>
          calculate_next_send_date self = Inr (Some (base + 30 * 86400000000)))"
proof (intro conjI impI)
  assume "\<not> is_recurring self \<or> frequency self = None"
  then show "calculate_next_send_date self = Inr None"
    by (auto simp: calculate_next_send_date_def)
next
  assume "frequency self \<notin> {Some ''daily'', Some ''weekly'', Some ''monthly''}"
  then show "calculate_next_send_date self = Inr None"
    by (simp add: calculate_next_send_date_def Let_def)
next
  assume "is_recurring self \<and> frequency self = Some ''daily''
          \<and> 0 \<le> base + 86400000000 \<and> base + 86400000000 \<le> datetime_max"
  then show "calculate_next_send_date self = Inr (Some (base + 86400000000))"
    by (simp add: calculate_next_send_date_def Let_def dt_add_def days_def base_def)
next
  assume "is_recurring self \<and> frequency self = Some ''weekly''
          \<and> 0 \<le> base + 7 * 86400000000 \<and> base + 7 * 86400000000 \<le> datetime_max"
  then show "calculate_next_send_date self = Inr (Some (base + 7 * 86400000000))"
    by (simp add: calculate_next_send_date_def Let_def dt_add_def days_def base_def)
next
  assume "is_recurring self \<and> frequency self = Some ''monthly''
          \<and> 0 \<le> base + 30 * 86400000000 \<and> base + 30 * 86400000000 \<le> datetime_max"
  then show "calculate_next_send_date self = Inr (Some (base + 30 * 86400000000))"
    by (simp add: calculate_next_send_date_def Let_def dt_add_def days_def base_def)
qed

theorem calculate_next_send_date_cases_witness:
  "calculate_next_send_date (example_template 1 ''INV-202312-0001'') = Inr (Some (days 738915))
   \<and> calculate_next_send_date
        ((example_template 1 ''INV-202312-0001'')\<lparr>frequency := Some ''weekly'', next_send_date := None\<rparr>)
       = Inr (Some (days 738862))
   \<and> calculate_next_send_date
        ((example_template 1 ''INV-202312-0001'')
           \<lparr>frequency := Some ''daily'', initial_send_date := None, next_send_date := None\<rparr>)
       = Inr (Some (days 738856))
   \<and> calculate_next_send_date
        ((example_template 1 ''INV-202312-0001'')\<lparr>frequency := Some ''yearly''\<rparr>) = Inr None
   \<and> calculate_next_send_date
        ((example_template 1 ''INV-202312-0001'')\<lparr>is_recurring := False\<rparr>) = Inr None"
proof (intro conjI)
  show "calculate_next_send_date (example_template 1 ''INV-202312-0001'') = Inr (Some (days 738915))"
    using calculate_next_send_date_cases [of "example_template 1 ''INV-202312-0001''"]
    by (simp add: example_template_def days_def datetime_max_def)
  show "calculate_next_send_date
        ((example_template 1 ''INV-202312-0001'')\<lparr>frequency := Some ''weekly'', next_send_date := None\<rparr>)
       = Inr (Some (days 738862))"
    using calculate_next_send_date_cases
      [of "(example_template 1 ''INV-202312-0001'')\<lparr>frequency := Some ''weekly'', next_send_date := None\<rparr>"]
    by (simp add: example_template_def days_def datetime_max_def)
  show "calculate_next_send_date
        ((example_template 1 ''INV-202312-0001'')
           \<lparr>frequency := Some ''daily'', initial_send_date := None, next_send_date := None\<rparr>)
       = Inr (Some (days 738856))"
    using calculate_next_send_date_cases
      [of "(example_template 1 ''INV-202312-0001'')
           \<lparr>frequency := Some ''daily'', initial_send_date := None, next_send_date := None\<rparr>"]
    by (simp add: example_template_def days_def datetime_max_def)
  show "calculate_next_send_date
        ((example_template 1 ''INV-202312-0001'')\<lparr>frequency := Some ''yearly''\<rparr>) = Inr None"
    using calculate_next_send_date_cases
      [of "(example_template 1 ''INV-202312-0001'')\<lparr>frequency := Some ''yearly''\<rparr>"]
    by (simp add: example_template_def)
  show "calculate_next_send_date
        ((example_template 1 ''INV-202312-0001'')\<lparr>is_recurring := False\<rparr>) = Inr None"
    using calculate_next_send_date_cases
      [of "(example_template 1 ''INV-202312-0001'')\<lparr>is_recurring := False\<rparr>"]
    by (simp add: example_template_def)
qed

section \<open>Claims about the totals calculator\<close>

text \<open>
  Claim C7 (totals calculator) fails on the code as stated, in the tax amount. The code
  computes \<open>subtotal * (tax_rate / 100)\<close>: the division first, each operation rounded
  to a double. For one item of amount 3.0 and the tax rate 7.0 the stored tax amount is
  the double 0.21000000000000002 (7566047373982434 / 2^55), and
  \<open>subtotal * tax_rate / 100\<close> is the double 0.21 (7566047373982433 / 2^55).
\<close>

theorem tax_amount_rounding:
  "tax_amount (calculate_totals binary64_ops
      ((example_template 1 ''INV-202312-0001'')
         \<lparr>tax_rate := 7,
          items := [\<lparr>description = ''Hosting'', quantity = 1, unit_price = 3, amount = 3\<rparr>]\<rparr>))
     = 7566047373982434 / 2 ^ 55
   \<and> fdiv binary64_ops
        (fmul binary64_ops
           (subtotal (calculate_totals binary64_ops
              ((example_template 1 ''INV-202312-0001'')
                 \<lparr>tax_rate := 7,
                  items := [\<lparr>description = ''Hosting'', quantity = 1, unit_price = 3,
                             amount = 3\<rparr>]\<rparr>)))
           7)
        (ffloat binary64_ops 100)
     = 7566047373982433 / 2 ^ 55"
  by (simp add: calculate_totals_def example_template_def float_ev)

text \<open>
  Claim C7 as amended, for every float arithmetic. After \<open>calculate_totals\<close> the
  subtotal is the \<open>sum\<close> of the amounts of the items, in their order; the tax amount is
  the subtotal times the quotient \<open>tax_rate / 100\<close>; the total is the subtotal plus the
  tax amount. No other field changes; computing twice gives what computing once gives; and
  the three values depend on the items and the tax rate only.
\<close>

theorem calculate_totals_values:
  "subtotal (calculate_totals ops self) = fsum ops (map amount (items self))
   \<and> tax_amount (calculate_totals ops self) =
       fmul ops (subtotal (calculate_totals ops self)) (fdiv ops (tax_rate self) (ffloat ops 100))
   \<and> total_amount (calculate_totals ops self) =
       fadd ops (subtotal (calculate_totals ops self)) (tax_amount (calculate_totals ops self))
   \<and> calculate_totals ops self =
       self\<lparr>subtotal := subtotal (calculate_totals ops self),
            tax_amount := tax_amount (calculate_totals ops self),
            total_amount := total_amount (calculate_totals ops self)\<rparr>
   \<and> calculate_totals ops (calculate_totals ops self) = calculate_totals ops self
   \<and> (items other = items self \<and> tax_rate other = tax_rate self \<longrightarrow>
         subtotal (calculate_totals ops other) = subtotal (calculate_totals ops self)
       \<and> tax_amount (calculate_totals ops other) = tax_amount (calculate_totals ops self)
       \<and> total_amount (calculate_totals ops other) = total_amount (calculate_totals ops self))"
  by (simp add: calculate_totals_def Let_def)

theorem calculate_totals_values_witness:
  "subtotal (calculate_totals binary64_ops (example_template 1 ''INV-202312-0001'')) = 100
   \<and> tax_amount (calculate_totals binary64_ops (example_template 1 ''INV-202312-0001'')) = 8
   \<and> total_amount (calculate_totals binary64_ops (example_template 1 ''INV-202312-0001'')) = 108
   \<and> total_amount (calculate_totals binary64_ops (example_template 2 ''INV-202312-0002'')) = 108"
proof -
  note v = calculate_totals_values
      [of binary64_ops "example_template 1 ''INV-202312-0001''"
          "example_template 2 ''INV-202312-0002''"]
  have s: "subtotal (calculate_totals binary64_ops (example_template 1 ''INV-202312-0001'')) = 100"
    using v [THEN conjunct1] by (simp add: example_template_def float_ev)
  have t: "tax_amount (calculate_totals binary64_ops (example_template 1 ''INV-202312-0001'')) = 8"
    using v [THEN conjunct2, THEN conjunct1] unfolding s
    by (simp add: example_template_def float_ev)
  have a: "total_amount (calculate_totals binary64_ops (example_template 1 ''INV-202312-0001'')) = 108"
    using v [THEN conjunct2, THEN conjunct2, THEN conjunct1] unfolding s t
    by (simp add: float_ev)
  have "total_amount (calculate_totals binary64_ops (example_template 2 ''INV-202312-0002'')) =
        total_amount (calculate_totals binary64_ops (example_template 1 ''INV-202312-0001''))"
    using v [THEN conjunct2, THEN conjunct2, THEN conjunct2, THEN conjunct2, THEN conjunct2]
    by (simp add: example_template_def)
  with s t a show ?thesis by simp
qed

section \<open>Claims about the recurring invoice generator\<close>

lemma process_template_raises:
  "process_template py ops send_invoice_email year_month now template db = Inl (AttributeError, db)"
  by (simp add: process_template_def template_user_def)

lemma example_due:
  "recurring_templates (days 738886) example_db =
     [example_template 1 ''INV-202312-0001'', example_template 2 ''INV-202312-0002'']"
  by (simp add: recurring_templates_def is_due_def example_db_def example_template_def days_def)

text \<open>
  Claim C8 (generator selection and child construction) fails on the code by a slip. The
  query selects the due templates as claimed, but the first expression of the loop body
  reads \<open>template.user\<close>, an attribute no model declares: the cycle raises
  \<open>AttributeError\<close> at the first due template, before a child is built, and the
  database stays as it was. Here the table holds one template, due on 2024-01-01, and
  the cycle runs on 2024-01-02.
\<close>

theorem process_recurring_invoices_raises:
  "recurring_templates (days 738886)
      (example_db\<lparr>invoices := [example_template 1 ''INV-202312-0001'']\<rparr>) =
     [example_template 1 ''INV-202312-0001'']
   \<and> process_recurring_invoices ascii_python binary64_ops (\<lambda>i. True) ''202401'' (days 738886)
        (example_db\<lparr>invoices := [example_template 1 ''INV-202312-0001'']\<rparr>) =
     Inl (AttributeError, example_db\<lparr>invoices := [example_template 1 ''INV-202312-0001'']\<rparr>)"
  by (simp add: process_recurring_invoices_def recurring_templates_def is_due_def
      process_template_def template_user_def example_db_def example_template_def days_def)

text \<open>
  Claim C4 (cycle isolation) fails on the code as stated. With two due templates, the
  first raises and the second is not processed: the cycle ends with that exception and
  the table of invoices holds the two templates only, no child.
\<close>

theorem second_template_not_processed:
  "recurring_templates (days 738886) example_db =
     [example_template 1 ''INV-202312-0001'', example_template 2 ''INV-202312-0002'']
   \<and> process_template ascii_python binary64_ops (\<lambda>i. True) ''202401'' (days 738886)
        (example_template 1 ''INV-202312-0001'') example_db = Inl (AttributeError, example_db)
   \<and> process_recurring_invoices ascii_python binary64_ops (\<lambda>i. True) ''202401'' (days 738886) example_db =
       Inl (AttributeError, example_db)
   \<and> invoices example_db =
       [example_template 1 ''INV-202312-0001'', example_template 2 ''INV-202312-0002'']"
  by (simp add: process_recurring_invoices_def example_due process_template_raises)
     (simp add: example_db_def)

text \<open>
  Claim C4 as amended. Nothing in \<open>process_recurring_invoices\<close> catches an
  exception. When the due templates are \<open>before\<close>, then \<open>template\<close>, then
  \<open>rest\<close>, the templates of \<open>before\<close> are processed, and processing
  \<open>template\<close> raises, then the cycle ends with that exception and the database of
  that moment: no template of \<open>rest\<close> is processed.
\<close>

theorem cycle_stops_at_exception:
  assumes "recurring_templates now db = before @ template # rest"
    and "process_templates py ops send_invoice_email year_month now before db = Inr db1"
    and "process_template py ops send_invoice_email year_month now template db1 = Inl (e, db2)"
  shows "process_recurring_invoices py ops send_invoice_email year_month now db = Inl (e, db2)"
proof -
  have "process_templates py ops send_invoice_email year_month now (before @ template # rest) d
          = Inl (e, db2)"
    if "process_templates py ops send_invoice_email year_month now before d = Inr db1" for d
    using that
  proof (induction before arbitrary: d)
    case Nil
    then show ?case using assms(3) by simp
  next
    case (Cons t ts)
    then show ?case by (auto split: sum.splits)
  qed
  then show ?thesis
    using assms(1,2) by (simp add: process_recurring_invoices_def)
qed

theorem cycle_stops_at_exception_witness:
  "process_recurring_invoices ascii_python binary64_ops (\<lambda>i. False) ''202401'' (days 738886) example_db =
     Inl (AttributeError, example_db)"
proof -
  have a: "recurring_templates (days 738886) example_db =
     [] @ example_template 1 ''INV-202312-0001'' # [example_template 2 ''INV-202312-0002'']"
    by (simp add: example_due)
  have b: "process_templates ascii_python binary64_ops (\<lambda>i. False) ''202401'' (days 738886) [] example_db =
     Inr example_db"
    by simp
  have c: "process_template ascii_python binary64_ops (\<lambda>i. False) ''202401'' (days 738886)
      (example_template 1 ''INV-202312-0001'') example_db = Inl (AttributeError, example_db)"
    by (simp add: process_template_def template_user_def)
  show ?thesis
    using a b c by (rule cycle_stops_at_exception)
qed

lemma calculate_totals_fields:
  "is_recurring (calculate_totals ops i) = is_recurring i"
  "frequency (calculate_totals ops i) = frequency i"
  "initial_send_date (calculate_totals ops i) = initial_send_date i"
  "invoice.next_send_date (calculate_totals ops i) = invoice.next_send_date i"
  "status (calculate_totals ops i) = status i"
  "invoice.id (calculate_totals ops i) = invoice.id i"
  "invoice_number (calculate_totals ops i) = invoice_number i"
  by (simp_all add: calculate_totals_def Let_def)

lemma closed_not_due:
  "\<not> is_recurring c \<Longrightarrow> calculate_next_send_date c = Inr None \<and> (\<forall>t. \<not> is_due t c)"
  by (simp add: calculate_next_send_date_def is_due_def)

lemma deliver_child_invoices:
  assumes "deliver_child send_invoice_email template child d = Inr d'
           \<or> deliver_child send_invoice_email template child d = Inl (e, d')"
  shows "invoices d' = invoices d
         \<or> invoices d' =
             map (\<lambda>i. if invoice.id i = invoice.id child then i\<lparr>status := ''sent''\<rparr> else i)
               (invoices d)"
  using assms
  by (auto simp: deliver_child_def Let_def update_invoice_def create_notification_def
           split: if_splits option.splits)

lemma generate_child_invoices:
  assumes "generate_child py ops send_invoice_email year_month now usr template db = Inr db'
           \<or> generate_child py ops send_invoice_email year_month now usr template db = Inl (e, db')"
  shows "invoices db' = invoices db
         \<or> (\<exists>child next_date.
               \<not> is_recurring child \<and> frequency child = None \<and> initial_send_date child = None
             \<and> invoice.next_send_date child = None
             \<and> (invoices db' =
                    map (\<lambda>i. if invoice.id i = invoice.id template
                             then i\<lparr>next_send_date := next_date\<rparr> else i) (invoices db) @ [child]
                  \<or> invoices db' =
                    map (\<lambda>i. if invoice.id i = invoice.id child then i\<lparr>status := ''sent''\<rparr> else i)
                      (map (\<lambda>i. if invoice.id i = invoice.id template
                               then i\<lparr>next_send_date := next_date\<rparr> else i) (invoices db)
                       @ [child])))"
proof (cases "generate_invoice_number py (map invoice_number (invoices db)) year_month usr
                (template_client db template) ''INV''")
  case (Inl a)
  with assms show ?thesis by (auto simp: generate_child_def)
next
  case number: (Inr new_number)
  show ?thesis
  proof (cases "dt_add now (due_date template - date template)")
    case (Inl a)
    with assms number show ?thesis by (auto simp: generate_child_def)
  next
    case due: (Inr due)
    show ?thesis
    proof (cases "new_number \<in> set (map invoice_number (invoices db))")
      case True
      with assms number due show ?thesis by (auto simp: generate_child_def)
    next
      case fresh: False
      show ?thesis
      proof (cases "calculate_next_send_date template")
        case (Inl a)
        with assms number due fresh show ?thesis by (auto simp: generate_child_def Let_def)
      next
        case (Inr next_date)
        define child where "child = calculate_totals ops
                     ((new_invoice ops (next_id (invoices db)) new_number now due template)
                        \<lparr>items := copy_items (items template)\<rparr>)"
        define db1 where "db1 = (update_invoice (invoice.id template)
                     (\<lambda>i. i\<lparr>next_send_date := next_date\<rparr>) db)
                   \<lparr>invoices :=
                      invoices (update_invoice (invoice.id template)
                                  (\<lambda>i. i\<lparr>next_send_date := next_date\<rparr>) db) @ [child]\<rparr>"
        have g: "generate_child py ops send_invoice_email year_month now usr template db =
                 deliver_child send_invoice_email template child db1"
          using number due fresh Inr
          by (simp add: generate_child_def Let_def child_def db1_def)
        have closed: "\<not> is_recurring child \<and> frequency child = None
                      \<and> initial_send_date child = None \<and> invoice.next_send_date child = None"
          by (simp add: child_def calculate_totals_fields new_invoice_def)
        have rows: "invoices db1 =
                    map (\<lambda>i. if invoice.id i = invoice.id template
                             then i\<lparr>next_send_date := next_date\<rparr> else i) (invoices db) @ [child]"
          by (simp add: db1_def update_invoice_def)
        from assms have "invoices db' = invoices db1
           \<or> invoices db' =
             map (\<lambda>i. if invoice.id i = invoice.id child then i\<lparr>status := ''sent''\<rparr> else i)
               (invoices db1)"
          unfolding g by (rule deliver_child_invoices)
        then have shape: "invoices db' =
                    map (\<lambda>i. if invoice.id i = invoice.id template
                             then i\<lparr>next_send_date := next_date\<rparr> else i) (invoices db) @ [child]
                  \<or> invoices db' =
                    map (\<lambda>i. if invoice.id i = invoice.id child then i\<lparr>status := ''sent''\<rparr> else i)
                      (map (\<lambda>i. if invoice.id i = invoice.id template
                               then i\<lparr>next_send_date := next_date\<rparr> else i) (invoices db)
                       @ [child])"
          by (simp only: rows)
        show ?thesis
          by (rule disjI2, rule exI [of _ child], rule exI [of _ next_date])
             (simp only: closed shape simp_thms)
      qed
    qed
  qed
qed

lemma advanced_row_id:
  "invoice.id (if invoice.id i = k then i\<lparr>next_send_date := d\<rparr> else i) = invoice.id i"
  by simp

lemma generate_child_rows:
  fixes db :: "'f db"
  assumes "generate_child py ops send_invoice_email year_month now usr template db = Inr db'
           \<or> generate_child py ops send_invoice_email year_month now usr template db = Inl (e, db')"
    and "c \<in> set (invoices db')"
  shows "invoice.id c \<in> invoice.id ` set (invoices db)
         \<or> (\<not> is_recurring c \<and> frequency c = None \<and> initial_send_date c = None
             \<and> invoice.next_send_date c = None)"
proof -
  let ?P = "\<lambda>c. invoice.id c \<in> invoice.id ` set (invoices db)
         \<or> (\<not> is_recurring c \<and> frequency c = None \<and> initial_send_date c = None
             \<and> invoice.next_send_date c = None)"
  from generate_child_invoices [OF assms(1)] show ?thesis
  proof (elim disjE exE conjE)
    assume "invoices db' = invoices db"
    with assms(2) show ?thesis by simp
  next
    fix child :: "'f invoice" and next_date
    let ?f = "\<lambda>i. if invoice.id i = invoice.id template
                   then i\<lparr>next_send_date := next_date\<rparr> else i"
    assume closed: "\<not> is_recurring child" "frequency child = None"
      "initial_send_date child = None" "invoice.next_send_date child = None"
    have old: "?P y" if "y \<in> set (map ?f (invoices db) @ [child])" for y
    proof (cases "y = child")
      case True
      with closed show ?thesis by simp
    next
      case False
      with that obtain x where "x \<in> set (invoices db)" and "y = ?f x" by auto
      then have "invoice.id y = invoice.id x" by (simp only: advanced_row_id)
      with \<open>x \<in> set (invoices db)\<close> show ?thesis by simp
    qed
    {
      assume "invoices db' = map ?f (invoices db) @ [child]"
      with assms(2) old show ?thesis by simp
    next
      assume "invoices db' =
          map (\<lambda>i. if invoice.id i = invoice.id child then i\<lparr>status := ''sent''\<rparr> else i)
            (map ?f (invoices db) @ [child])"
      with assms(2) have "c \<in> (\<lambda>i. if invoice.id i = invoice.id child then i\<lparr>status := ''sent''\<rparr> else i)
                 ` set (map ?f (invoices db) @ [child])"
        by (simp only: set_map)
      then obtain y where y: "y \<in> set (map ?f (invoices db) @ [child])"
        and c: "c = (if invoice.id y = invoice.id child then y\<lparr>status := ''sent''\<rparr> else y)"
        by (rule imageE)
      from old [OF y] c show ?thesis by (cases "invoice.id y = invoice.id child") simp_all
    }
  qed
qed

lemma process_templates_unchanged:
  "process_templates py ops send_invoice_email year_month now ts db =
     (if ts = [] then Inr db else Inl (AttributeError, db))"
  by (cases ts) (simp_all add: process_template_raises)

lemma example_number:
  "generate_invoice_number ascii_python [''INV-202312-0001'', ''INV-202312-0002''] ''202401''
     (Some example_admin) (Some example_client) ''INV'' = Inr ''INV-202401-0001''"
  by (simp add: alloc_ev prim_ev ex_ev)

lemma example_child_run:
  "\<exists>db'. generate_child ascii_python binary64_ops (\<lambda>i. False) ''202401'' (days 738886) (Some example_admin)
           (example_template 1 ''INV-202312-0001'') example_db = Inr db'
         \<and> map invoice.id (invoices db') = [1, 2, 3]
         \<and> map notification.title (notifications db') = [''Recurring Email Failed'']"
proof -
  have n: "map invoice_number (invoices example_db) = [''INV-202312-0001'', ''INV-202312-0002'']"
    by (simp add: example_db_def example_template_def)
  have cl: "template_client example_db (example_template 1 ''INV-202312-0001'') = Some example_client"
    by (simp add: template_client_def example_db_def example_template_def example_client_def)
  have due: "dt_add (days 738886)
       (due_date (example_template 1 ''INV-202312-0001'') - date (example_template 1 ''INV-202312-0001''))
       = Inr (days 738900)"
    by (simp add: dt_add_def days_def datetime_max_def example_template_def)
  have fresh: "''INV-202401-0001'' \<notin> set [''INV-202312-0001'', ''INV-202312-0002'']"
    by simp
  have nsd: "calculate_next_send_date (example_template 1 ''INV-202312-0001'') = Inr (Some (days 738915))"
    by (simp add: calculate_next_send_date_def dt_add_def days_def datetime_max_def
          example_template_def Let_def)
  show ?thesis
    by (simp only: generate_child_def n cl example_number sum.case due fresh if_False Let_def nsd)
       (simp add: deliver_child_def create_notification_def update_invoice_def next_id_def
          calculate_totals_fields new_invoice_def example_db_def example_template_def)
qed

text \<open>
  Claim C10 (generation is closed). Whatever \<open>template.user\<close> evaluates to, every
  row that the loop body adds to the table of invoices (a row whose id the table did not
  hold before) has \<open>is_recurring\<close> false and \<open>frequency\<close>,
  \<open>initial_send_date\<close>, \<open>next_send_date\<close> null, also after its status has been
  set to \<open>sent\<close>; so \<open>calculate_next_send_date\<close> returns \<open>None\<close> on it and it
  satisfies the selection predicate of the cycle at no time. The same holds of every row
  a whole cycle adds.
\<close>

theorem generated_children_never_recur:
  fixes db :: "'f db"
  assumes "generate_child py ops send_invoice_email year_month now usr template db = Inr db'
           \<or> generate_child py ops send_invoice_email year_month now usr template db = Inl (e, db')
           \<or> process_recurring_invoices py ops send_invoice_email year_month now db = Inr db'
           \<or> process_recurring_invoices py ops send_invoice_email year_month now db = Inl (e, db')"
  shows "\<forall>c\<in>set (invoices db'). invoice.id c \<notin> invoice.id ` set (invoices db) \<longrightarrow>
           \<not> is_recurring c \<and> frequency c = None \<and> initial_send_date c = None
         \<and> invoice.next_send_date c = None
         \<and> calculate_next_send_date c = Inr None \<and> (\<forall>t. \<not> is_due t c)"
proof (intro ballI impI)
  fix c
  assume c: "c \<in> set (invoices db')" and new: "invoice.id c \<notin> invoice.id ` set (invoices db)"
  from assms consider
    (child) "generate_child py ops send_invoice_email year_month now usr template db = Inr db'
           \<or> generate_child py ops send_invoice_email year_month now usr template db = Inl (e, db')"
  | (cycle) "process_recurring_invoices py ops send_invoice_email year_month now db = Inr db'
           \<or> process_recurring_invoices py ops send_invoice_email year_month now db = Inl (e, db')"
    by blast
  then have closed: "\<not> is_recurring c \<and> frequency c = None \<and> initial_send_date c = None
         \<and> invoice.next_send_date c = None"
  proof cases
    case child
    from generate_child_rows [OF child c] new show ?thesis by blast
  next
    case cycle
    then have "db' = db"
      by (auto simp: process_recurring_invoices_def process_templates_unchanged split: if_splits)
    with c new show ?thesis by blast
  qed
  with closed_not_due [of c]
  show "\<not> is_recurring c \<and> frequency c = None \<and> initial_send_date c = None
         \<and> invoice.next_send_date c = None
         \<and> calculate_next_send_date c = Inr None \<and> (\<forall>t. \<not> is_due t c)"
    by blast
qed

theorem generated_children_never_recur_witness:
  "\<exists>db'. generate_child ascii_python binary64_ops (\<lambda>i. False) ''202401'' (days 738886) (Some example_admin)
           (example_template 1 ''INV-202312-0001'') example_db = Inr db'
         \<and> invoice.id (last (invoices db')) = 3
         \<and> \<not> is_recurring (last (invoices db'))
         \<and> calculate_next_send_date (last (invoices db')) = Inr None
         \<and> \<not> is_due (days 738946) (last (invoices db'))"
proof -
  from example_child_run obtain db' where ex:
       "generate_child ascii_python binary64_ops (\<lambda>i. False) ''202401'' (days 738886)
           (Some example_admin) (example_template 1 ''INV-202312-0001'') example_db = Inr db'
         \<and> map invoice.id (invoices db') = [1, 2, 3]
         \<and> map notification.title (notifications db') = [''Recurring Email Failed'']"
    by (rule exE)
  from ex have run: "generate_child ascii_python binary64_ops (\<lambda>i. False) ''202401'' (days 738886)
           (Some example_admin) (example_template 1 ''INV-202312-0001'') example_db = Inr db'"
    by (rule conjunct1)
  from ex have ids: "map invoice.id (invoices db') = [1, 2, 3]"
    by (simp only:)
  from ids have ne: "invoices db' \<noteq> []" by auto
  then have l: "last (invoices db') \<in> set (invoices db')" by simp
  have "invoice.id (last (invoices db')) = last (map invoice.id (invoices db'))"
    using ne by (simp add: last_map)
  then have id3: "invoice.id (last (invoices db')) = 3"
    by (simp add: ids)
  have new: "invoice.id (last (invoices db')) \<notin> invoice.id ` set (invoices example_db)"
    by (simp add: id3 example_db_def example_template_def)
  have "generate_child ascii_python binary64_ops (\<lambda>i. False) ''202401'' (days 738886)
           (Some example_admin) (example_template 1 ''INV-202312-0001'') example_db = Inr db'
        \<or> generate_child ascii_python binary64_ops (\<lambda>i. False) ''202401'' (days 738886)
           (Some example_admin) (example_template 1 ''INV-202312-0001'') example_db
           = Inl (AttributeError, db')
        \<or> process_recurring_invoices ascii_python binary64_ops (\<lambda>i. False) ''202401'' (days 738886) example_db
           = Inr db'
        \<or> process_recurring_invoices ascii_python binary64_ops (\<lambda>i. False) ''202401'' (days 738886) example_db
           = Inl (AttributeError, db')"
    using run by (rule disjI1)
  note r = generated_children_never_recur [OF this, rule_format, OF l new]
  from r have a: "\<not> is_recurring (last (invoices db'))"
    by (rule conjunct1)
  from r have b: "calculate_next_send_date (last (invoices db')) = Inr None"
    by (simp only:)
  from r have c: "\<not> is_due (days 738946) (last (invoices db'))"
    by (simp only: not_False_eq_True)
  from run id3 a b c show ?thesis
    by (intro exI [of _ db'] conjI)
qed

section \<open>Claims about the status operations\<close>

lemmas status_ev = update_invoice_status_def update_invoice_def create_notification_def
  log_audit_def status_messages_def str_capitalize_def upper_char_def lower_char_def

text \<open>
  Claim C5 (terminal states) fails on the code as stated. The administrator moves a paid
  invoice back to \<open>draft\<close> with \<open>update_invoice_status\<close>: the operation returns
  normally, the status changes, and a notification and an audit row record the change.
\<close>

theorem paid_invoice_moved_to_draft:
  "update_invoice_status (\<lambda>i. False) example_admin 1 (Some ''draft'')
     (example_db\<lparr>invoices := [(example_template 1 ''INV-202312-0001'')\<lparr>status := ''paid''\<rparr>]\<rparr>)
   = Inr ([(''Invoice status updated to draft'', ''success'')],
          example_db
            \<lparr>invoices := [(example_template 1 ''INV-202312-0001'')\<lparr>status := ''draft''\<rparr>],
             notifications :=
               [\<lparr>notification.user_id = 1, title = ''Invoice Status Changed: Draft'',
                 message = ''Invoice INV-202312-0001 moved to Draft''\<rparr>],
             audit_logs :=
               [\<lparr>audit_log.user_id = 1, action = ''update'', entity_type = ''invoice'',
                 entity_id = 1, details = ''Status changed from paid to draft''\<rparr>]\<rparr>)"
  by (simp add: status_ev example_db_def example_admin_def example_template_def)

text \<open>
  Claim C5 as amended, for an invoice whose status is \<open>paid\<close> or \<open>cancelled\<close>.
  \<open>customer_pay_invoice\<close> leaves the database as it is and answers with an
  informational message; no error is raised. \<open>update_invoice_status\<close>, the
  administrator's operation, does not look at the current status: each of the targets
  \<open>draft\<close>, \<open>paid\<close>, \<open>overdue\<close>, \<open>cancelled\<close> becomes the status, and the
  target \<open>sent\<close> becomes the status exactly when the delivery succeeds.
\<close>

theorem terminal_status_operations:
  fixes db :: "'f db"
  assumes "status invoice = ''paid'' \<or> status invoice = ''cancelled''"
  shows
    "(user.role current_user \<noteq> ''admin''
        \<and> find (\<lambda>i. invoice.id i = invoice_id \<and>
                     (case template_client db i of
                        None \<Rightarrow> False
                      | Some c \<Rightarrow> client.email c = Some (user.email current_user)))
             (invoices db) = Some invoice \<longrightarrow>
        customer_pay_invoice ops current_user invoice_id db =
          Inr ([(''Invoice '' @ invoice_number invoice @ '' is already '' @ status invoice @ ''.'',
                 ''info'')], db))
     \<and> (user.role current_user = ''admin''
        \<and> find (\<lambda>i. invoice.id i = invoice_id \<and> invoice.user_id i = user.id current_user)
             (invoices db) = Some invoice \<longrightarrow>
          (\<forall>new_status \<in> {''draft'', ''paid'', ''overdue'', ''cancelled''}.
             \<exists>fl db'. update_invoice_status send_invoice_email current_user invoice_id
                         (Some new_status) db = Inr (fl, db')
                     \<and> invoices db' =
                         map (\<lambda>i. if invoice.id i = invoice_id then i\<lparr>status := new_status\<rparr> else i)
                           (invoices db))
        \<and> (\<exists>fl db'. update_invoice_status send_invoice_email current_user invoice_id
                         (Some ''sent'') db = Inr (fl, db')
                     \<and> invoices db' =
                         (if send_invoice_email invoice
                          then map (\<lambda>i. if invoice.id i = invoice_id then i\<lparr>status := ''sent''\<rparr> else i)
                                 (invoices db)
                          else invoices db)))"
proof (intro conjI impI)
  assume "user.role current_user \<noteq> ''admin''
        \<and> find (\<lambda>i. invoice.id i = invoice_id \<and>
                     (case template_client db i of
                        None \<Rightarrow> False
                      | Some c \<Rightarrow> client.email c = Some (user.email current_user)))
             (invoices db) = Some invoice"
  with assms show "customer_pay_invoice ops current_user invoice_id db =
          Inr ([(''Invoice '' @ invoice_number invoice @ '' is already '' @ status invoice @ ''.'',
                 ''info'')], db)"
    by (auto simp: customer_pay_invoice_def)
next
  assume a: "user.role current_user = ''admin''
        \<and> find (\<lambda>i. invoice.id i = invoice_id \<and> invoice.user_id i = user.id current_user)
             (invoices db) = Some invoice"
  then show "\<forall>new_status \<in> {''draft'', ''paid'', ''overdue'', ''cancelled''}.
             \<exists>fl db'. update_invoice_status send_invoice_email current_user invoice_id
                         (Some new_status) db = Inr (fl, db')
                     \<and> invoices db' =
                         map (\<lambda>i. if invoice.id i = invoice_id then i\<lparr>status := new_status\<rparr> else i)
                           (invoices db)"
    by (simp add: update_invoice_status_def update_invoice_def create_notification_def
          log_audit_def)
  from a show "\<exists>fl db'. update_invoice_status send_invoice_email current_user invoice_id
                         (Some ''sent'') db = Inr (fl, db')
                     \<and> invoices db' =
                         (if send_invoice_email invoice
                          then map (\<lambda>i. if invoice.id i = invoice_id then i\<lparr>status := ''sent''\<rparr> else i)
                                 (invoices db)
                          else invoices db)"
    by (simp add: update_invoice_status_def update_invoice_def)
qed

theorem terminal_status_operations_witness:
  "customer_pay_invoice binary64_ops example_customer 1
     (example_db\<lparr>invoices := [(example_template 1 ''INV-202312-0001'')\<lparr>status := ''paid''\<rparr>]\<rparr>)
   = Inr ([(''Invoice INV-202312-0001 is already paid.'', ''info'')],
          example_db\<lparr>invoices := [(example_template 1 ''INV-202312-0001'')\<lparr>status := ''paid''\<rparr>]\<rparr>)
   \<and> (\<exists>fl db'. update_invoice_status (\<lambda>i. False) example_admin 1 (Some ''overdue'')
          (example_db\<lparr>invoices := [(example_template 1 ''INV-202312-0001'')\<lparr>status := ''paid''\<rparr>]\<rparr>)
          = Inr (fl, db')
        \<and> map status (invoices db') = [''overdue''])
   \<and> (\<exists>fl db'. update_invoice_status (\<lambda>i. False) example_admin 1 (Some ''sent'')
          (example_db\<lparr>invoices := [(example_template 1 ''INV-202312-0001'')\<lparr>status := ''paid''\<rparr>]\<rparr>)
          = Inr (fl, db')
        \<and> map status (invoices db') = [''paid''])"
proof -
  let ?inv = "(example_template 1 ''INV-202312-0001'')\<lparr>status := ''paid''\<rparr>"
  let ?db = "example_db\<lparr>invoices := [?inv]\<rparr>"
  have paid: "status ?inv = ''paid'' \<or> status ?inv = ''cancelled''"
    by simp
  note t = terminal_status_operations [OF paid, where db = ?db and invoice_id = 1
      and send_invoice_email = "\<lambda>i. False" and ops = binary64_ops]
  have cust: "user.role example_customer \<noteq> ''admin''
        \<and> find (\<lambda>i. invoice.id i = 1 \<and>
                     (case template_client ?db i of
                        None \<Rightarrow> False
                      | Some c \<Rightarrow> client.email c = Some (user.email example_customer)))
             (invoices ?db) = Some ?inv"
    by (simp add: template_client_def example_db_def example_customer_def example_client_def
          example_template_def)
  have adm: "user.role example_admin = ''admin''
        \<and> find (\<lambda>i. invoice.id i = 1 \<and> invoice.user_id i = user.id example_admin)
             (invoices ?db) = Some ?inv"
    by (simp add: example_db_def example_admin_def example_template_def)
  have c1: "customer_pay_invoice binary64_ops example_customer 1 ?db
      = Inr ([(''Invoice '' @ invoice_number ?inv @ '' is already '' @ status ?inv @ ''.'', ''info'')],
             ?db)"
    using t [where current_user = example_customer, THEN conjunct1] cust by (rule mp)
  have n: "''Invoice '' @ invoice_number ?inv @ '' is already '' @ status ?inv @ ''.''
           = ''Invoice INV-202312-0001 is already paid.''"
    by (simp add: example_template_def)
  note a = t [where current_user = example_admin, THEN conjunct2, THEN mp, OF adm]
  have "''overdue'' \<in> {''draft'', ''paid'', ''overdue'', ''cancelled''}"
    by simp
  with a [THEN conjunct1] have
    "\<exists>fl db'. update_invoice_status (\<lambda>i. False) example_admin 1 (Some ''overdue'') ?db = Inr (fl, db')
        \<and> invoices db' =
             map (\<lambda>i. if invoice.id i = 1 then i\<lparr>status := ''overdue''\<rparr> else i) (invoices ?db)"
    by (rule bspec)
  then have c2: "\<exists>fl db'. update_invoice_status (\<lambda>i. False) example_admin 1 (Some ''overdue'') ?db
          = Inr (fl, db')
        \<and> map status (invoices db') = [''overdue'']"
    by (auto simp: example_template_def)
  from a [THEN conjunct2]
  have c3: "\<exists>fl db'. update_invoice_status (\<lambda>i. False) example_admin 1 (Some ''sent'') ?db
          = Inr (fl, db')
        \<and> map status (invoices db') = [''paid'']"
    by auto
  from c1 c2 c3 show ?thesis
    unfolding n by (intro conjI)
qed

section \<open>Claims about delivery and the status sent\<close>

lemma deliver_child_Inr:
  assumes "deliver_child send_invoice_email template child d = Inr d'"
  shows "invoices d' =
           (if send_invoice_email child
            then map (\<lambda>i. if invoice.id i = invoice.id child then i\<lparr>status := ''sent''\<rparr> else i)
                   (invoices d)
            else invoices d)
         \<and> (\<exists>n. notifications d' = notifications d @ [n]
                \<and> notification.user_id n = invoice.user_id template
                \<and> notification.title n =
                    (if send_invoice_email child then ''Recurring Invoice Sent''
                     else ''Recurring Email Failed''))"
  using assms
  by (auto simp: deliver_child_def Let_def update_invoice_def create_notification_def
           split: if_splits option.splits)

lemma generate_child_Inr:
  fixes db :: "'f db"
  assumes "generate_child py ops send_invoice_email year_month now usr template db = Inr db'"
  shows "\<exists>child rows. status child = ''draft''
           \<and> length rows = length (invoices db)
           \<and> invoices db' =
               (if send_invoice_email child
                then map (\<lambda>i. if invoice.id i = invoice.id child then i\<lparr>status := ''sent''\<rparr> else i)
                       (rows @ [child])
                else rows @ [child])
           \<and> (\<exists>n. notifications db' = notifications db @ [n]
                \<and> notification.user_id n = invoice.user_id template
                \<and> notification.title n =
                    (if send_invoice_email child then ''Recurring Invoice Sent''
                     else ''Recurring Email Failed''))"
proof (cases "generate_invoice_number py (map invoice_number (invoices db)) year_month usr
                (template_client db template) ''INV''")
  case (Inl a)
  with assms show ?thesis by (simp add: generate_child_def)
next
  case number: (Inr new_number)
  show ?thesis
  proof (cases "dt_add now (due_date template - date template)")
    case (Inl a)
    with assms number show ?thesis by (simp add: generate_child_def)
  next
    case due: (Inr due)
    show ?thesis
    proof (cases "new_number \<in> set (map invoice_number (invoices db))")
      case True
      with assms number due show ?thesis by (simp add: generate_child_def)
    next
      case fresh: False
      show ?thesis
      proof (cases "calculate_next_send_date template")
        case (Inl a)
        with assms number due fresh show ?thesis by (simp add: generate_child_def Let_def)
      next
        case (Inr next_date)
        define child where "child = calculate_totals ops
                     ((new_invoice ops (next_id (invoices db)) new_number now due template)
                        \<lparr>items := copy_items (items template)\<rparr>)"
        define db1 where "db1 = (update_invoice (invoice.id template)
                     (\<lambda>i. i\<lparr>next_send_date := next_date\<rparr>) db)
                   \<lparr>invoices :=
                      invoices (update_invoice (invoice.id template)
                                  (\<lambda>i. i\<lparr>next_send_date := next_date\<rparr>) db) @ [child]\<rparr>"
        have g: "generate_child py ops send_invoice_email year_month now usr template db =
                 deliver_child send_invoice_email template child db1"
          using number due fresh Inr
          by (simp add: generate_child_def Let_def child_def db1_def)
        have draft: "status child = ''draft''"
          by (simp add: child_def calculate_totals_fields new_invoice_def)
        have rows: "invoices db1 = invoices (update_invoice (invoice.id template)
                                  (\<lambda>i. i\<lparr>next_send_date := next_date\<rparr>) db) @ [child]"
          by (simp add: db1_def)
        have nfs: "notifications db1 = notifications db"
          by (simp add: db1_def update_invoice_def)
        from assms have "deliver_child send_invoice_email template child db1 = Inr db'"
          by (simp only: g)
        from deliver_child_Inr [OF this]
        have "invoices db' =
               (if send_invoice_email child
                then map (\<lambda>i. if invoice.id i = invoice.id child then i\<lparr>status := ''sent''\<rparr> else i)
                       (invoices (update_invoice (invoice.id template)
                                  (\<lambda>i. i\<lparr>next_send_date := next_date\<rparr>) db) @ [child])
                else invoices (update_invoice (invoice.id template)
                                  (\<lambda>i. i\<lparr>next_send_date := next_date\<rparr>) db) @ [child])
           \<and> (\<exists>n. notifications db' = notifications db @ [n]
                \<and> notification.user_id n = invoice.user_id template
                \<and> notification.title n =
                    (if send_invoice_email child then ''Recurring Invoice Sent''
                     else ''Recurring Email Failed''))"
          by (simp only: rows nfs)
        with draft show ?thesis
          by (intro exI [of _ child]
                exI [of _ "invoices (update_invoice (invoice.id template)
                                  (\<lambda>i. i\<lparr>next_send_date := next_date\<rparr>) db)"] conjI)
             (simp_all add: update_invoice_def)
      qed
    qed
  qed
qed

text \<open>
  Claim C2 (delivery-gated transition) fails on the code as stated, in the manual update.
  \<open>update_invoice_status\<close> with the target \<open>sent\<close> records no notification,
  whether the delivery succeeds or fails: it answers with a flashed message only. And when
  the delivery fails the status stays what it was, here \<open>overdue\<close>, not
  \<open>draft\<close>.
\<close>

theorem manual_sent_without_notification:
  "update_invoice_status (\<lambda>i. True) example_admin 1 (Some ''sent'')
     (example_db\<lparr>invoices := [(example_template 1 ''INV-202312-0001'')\<lparr>status := ''draft''\<rparr>]\<rparr>)
   = Inr ([(''Status updated to Sent and email delivered.'', ''success'')],
          example_db\<lparr>invoices := [(example_template 1 ''INV-202312-0001'')\<lparr>status := ''sent''\<rparr>],
                     notifications := []\<rparr>)
   \<and> update_invoice_status (\<lambda>i. False) example_admin 1 (Some ''sent'')
     (example_db\<lparr>invoices := [(example_template 1 ''INV-202312-0001'')\<lparr>status := ''overdue''\<rparr>]\<rparr>)
   = Inr ([(''Failed to send email. Invoice status NOT changed to Sent.'', ''error'')],
          example_db\<lparr>invoices := [(example_template 1 ''INV-202312-0001'')\<lparr>status := ''overdue''\<rparr>],
                     notifications := []\<rparr>)"
  by (simp add: update_invoice_status_def update_invoice_def example_db_def example_admin_def
        example_template_def)

text \<open>
  Claim C2 as amended. A manual update with the target \<open>sent\<close>, by the
  administrator who owns the invoice, sets the status to \<open>sent\<close> when the delivery
  attempt of that call succeeds and leaves every status as it was when it fails; either
  way it flashes one message and records no notification. In the generator, whatever
  \<open>template.user\<close> evaluates to, when the loop body completes it has added one
  invoice, the last of the table: its status is \<open>sent\<close> when the delivery attempt
  on it (made while it is a draft) succeeds and \<open>draft\<close> when it fails, and one
  notification for the owner of the template is recorded, \<open>Recurring Invoice Sent\<close>
  on success and \<open>Recurring Email Failed\<close> on failure.
\<close>

theorem delivery_gated_status:
  fixes db :: "'f db"
  shows
    "(user.role current_user = ''admin''
        \<and> find (\<lambda>i. invoice.id i = invoice_id \<and> invoice.user_id i = user.id current_user)
             (invoices db) = Some invoice \<longrightarrow>
        (\<exists>db'. update_invoice_status send_invoice_email current_user invoice_id
                     (Some ''sent'') db =
                   Inr ([if send_invoice_email invoice
                         then (''Status updated to Sent and email delivered.'', ''success'')
                         else (''Failed to send email. Invoice status NOT changed to Sent.'',
                               ''error'')], db')
                 \<and> notifications db' = notifications db
                 \<and> invoices db' =
                     (if send_invoice_email invoice
                      then map (\<lambda>i. if invoice.id i = invoice_id then i\<lparr>status := ''sent''\<rparr> else i)
                             (invoices db)
                      else invoices db)))
     \<and> (generate_child py ops send_invoice_email year_month now usr template db = Inr db2 \<longrightarrow>
          length (invoices db2) = Suc (length (invoices db))
        \<and> status (last (invoices db2)) =
            (if send_invoice_email ((last (invoices db2))\<lparr>status := ''draft''\<rparr>)
             then ''sent'' else ''draft'')
        \<and> (\<exists>n. notifications db2 = notifications db @ [n]
               \<and> notification.user_id n = invoice.user_id template
               \<and> notification.title n =
                   (if send_invoice_email ((last (invoices db2))\<lparr>status := ''draft''\<rparr>)
                    then ''Recurring Invoice Sent'' else ''Recurring Email Failed'')))"
proof (intro conjI impI)
  assume "user.role current_user = ''admin''
        \<and> find (\<lambda>i. invoice.id i = invoice_id \<and> invoice.user_id i = user.id current_user)
             (invoices db) = Some invoice"
  then show "\<exists>db'. update_invoice_status send_invoice_email current_user invoice_id
                     (Some ''sent'') db =
                   Inr ([if send_invoice_email invoice
                         then (''Status updated to Sent and email delivered.'', ''success'')
                         else (''Failed to send email. Invoice status NOT changed to Sent.'',
                               ''error'')], db')
                 \<and> notifications db' = notifications db
                 \<and> invoices db' =
                     (if send_invoice_email invoice
                      then map (\<lambda>i. if invoice.id i = invoice_id then i\<lparr>status := ''sent''\<rparr> else i)
                             (invoices db)
                      else invoices db)"
    by (simp add: update_invoice_status_def update_invoice_def)
next
  assume "generate_child py ops send_invoice_email year_month now usr template db = Inr db2"
  from generate_child_Inr [OF this] obtain child :: "'f invoice" and rows n
    where draft: "status child = ''draft''"
      and len: "length rows = length (invoices db)"
      and inv: "invoices db2 =
               (if send_invoice_email child
                then map (\<lambda>i. if invoice.id i = invoice.id child then i\<lparr>status := ''sent''\<rparr> else i)
                       (rows @ [child])
                else rows @ [child])"
      and n1: "notifications db2 = notifications db @ [n]"
      and n2: "notification.user_id n = invoice.user_id template"
      and n3: "notification.title n =
                    (if send_invoice_email child then ''Recurring Invoice Sent''
                     else ''Recurring Email Failed'')"
    by (elim exE conjE)
  show "length (invoices db2) = Suc (length (invoices db))"
    by (simp add: inv len)
  have l: "last (invoices db2) = (if send_invoice_email child then child\<lparr>status := ''sent''\<rparr> else child)"
    by (simp add: inv last_map)
  have restored: "(last (invoices db2))\<lparr>status := ''draft''\<rparr> = child"
    using draft by (simp add: l)
  show "status (last (invoices db2)) =
            (if send_invoice_email ((last (invoices db2))\<lparr>status := ''draft''\<rparr>)
             then ''sent'' else ''draft'')"
    unfolding restored using draft by (simp add: l)
  show "\<exists>n. notifications db2 = notifications db @ [n]
               \<and> notification.user_id n = invoice.user_id template
               \<and> notification.title n =
                   (if send_invoice_email ((last (invoices db2))\<lparr>status := ''draft''\<rparr>)
                    then ''Recurring Invoice Sent'' else ''Recurring Email Failed'')"
    unfolding restored using n1 n2 n3 by (intro exI [of _ n] conjI)
qed

theorem delivery_gated_status_witness:
  "(\<exists>db'. update_invoice_status (\<lambda>i. True) example_admin 1 (Some ''sent'')
            (example_db\<lparr>invoices := [(example_template 1 ''INV-202312-0001'')\<lparr>status := ''draft''\<rparr>]\<rparr>)
          = Inr ([(''Status updated to Sent and email delivered.'', ''success'')], db')
        \<and> notifications db' = []
        \<and> map status (invoices db') = [''sent''])
   \<and> (\<exists>db'. generate_child ascii_python binary64_ops (\<lambda>i. False) ''202401'' (days 738886)
            (Some example_admin) (example_template 1 ''INV-202312-0001'') example_db = Inr db'
        \<and> length (invoices db') = 3
        \<and> status (last (invoices db')) = ''draft''
        \<and> map notification.title (notifications db') = [''Recurring Email Failed''])"
proof (rule conjI)
  let ?inv = "(example_template 1 ''INV-202312-0001'')\<lparr>status := ''draft''\<rparr>"
  let ?db = "example_db\<lparr>invoices := [?inv]\<rparr>"
  have adm: "user.role example_admin = ''admin''
        \<and> find (\<lambda>i. invoice.id i = 1 \<and> invoice.user_id i = user.id example_admin)
             (invoices ?db) = Some ?inv"
    by (simp add: example_db_def example_admin_def example_template_def)
  from delivery_gated_status [where db = ?db and current_user = example_admin
      and invoice_id = 1 and invoice = ?inv and send_invoice_email = "\<lambda>i. True",
      THEN conjunct1, THEN mp, OF adm]
  show "\<exists>db'. update_invoice_status (\<lambda>i. True) example_admin 1 (Some ''sent'') ?db
          = Inr ([(''Status updated to Sent and email delivered.'', ''success'')], db')
        \<and> notifications db' = []
        \<and> map status (invoices db') = [''sent'']"
    by (auto simp: example_db_def example_template_def)
next
  from example_child_run obtain db' where ex:
       "generate_child ascii_python binary64_ops (\<lambda>i. False) ''202401'' (days 738886)
           (Some example_admin) (example_template 1 ''INV-202312-0001'') example_db = Inr db'
         \<and> map invoice.id (invoices db') = [1, 2, 3]
         \<and> map notification.title (notifications db') = [''Recurring Email Failed'']"
    by (rule exE)
  from ex have run: "generate_child ascii_python binary64_ops (\<lambda>i. False) ''202401'' (days 738886)
           (Some example_admin) (example_template 1 ''INV-202312-0001'') example_db = Inr db'"
    by (rule conjunct1)
  from ex have titles: "map notification.title (notifications db') = [''Recurring Email Failed'']"
    by (simp only:)
  note r = delivery_gated_status [where db = example_db and send_invoice_email = "\<lambda>i. False"
      and py = ascii_python and ops = binary64_ops and year_month = "''202401''"
      and now = "days 738886" and usr = "Some example_admin"
      and template = "example_template 1 ''INV-202312-0001''" and ?db2.0 = db',
      THEN conjunct2, THEN mp, OF run]
  from r have len: "length (invoices db') = 3"
    by (simp add: example_db_def)
  from r have st: "status (last (invoices db')) = ''draft''"
    by simp
  from run len st titles show "\<exists>db'. generate_child ascii_python binary64_ops (\<lambda>i. False)
            ''202401'' (days 738886)
            (Some example_admin) (example_template 1 ''INV-202312-0001'') example_db = Inr db'
        \<and> length (invoices db') = 3
        \<and> status (last (invoices db')) = ''draft''
        \<and> map notification.title (notifications db') = [''Recurring Email Failed'']"
    by (intro exI [of _ db'] conjI)
qed

end
